theory Spec2Isabelle
  imports Complex_Main
begin

section \<open>Numbers\<close>

text \<open>
  The program computes on IEEE doubles held in pandas columns. The embedding uses exact
  real arithmetic for every finite value and makes the non-finite values explicit: a
  column cell that may hold NaN or an infinity has type \<open>fl\<close>. Comparisons with NaN are
  false, as in numpy.
\<close>

datatype fl = Fin real | PInf | NInf | NaN

text \<open>\<open>a > b\<close> and \<open>a < b\<close> for a finite left operand and a column cell on the right.\<close>

fun gt_fl :: "real \<Rightarrow> fl \<Rightarrow> bool" where
  "gt_fl a (Fin b) = (a > b)"
| "gt_fl a PInf = False"
| "gt_fl a NInf = True"
| "gt_fl a NaN = False"

fun lt_fl :: "real \<Rightarrow> fl \<Rightarrow> bool" where
  "lt_fl a (Fin b) = (a < b)"
| "lt_fl a PInf = True"
| "lt_fl a NInf = False"
| "lt_fl a NaN = False"

text \<open>\<open>c > 0\<close> and \<open>c < 0\<close> for a column cell \<open>c\<close>.\<close>

fun fl_pos :: "fl \<Rightarrow> bool" where
  "fl_pos (Fin b) = (b > 0)"
| "fl_pos PInf = True"
| "fl_pos NInf = False"
| "fl_pos NaN = False"

fun fl_neg :: "fl \<Rightarrow> bool" where
  "fl_neg (Fin b) = (b < 0)"
| "fl_neg PInf = False"
| "fl_neg NInf = True"
| "fl_neg NaN = False"

text \<open>
  Float division \<open>a / b\<close> of two finite values, the divisor's zero being \<open>+0.0\<close>:
  \<open>0/0\<close> is NaN and \<open>x/0\<close> is the infinity with the sign of \<open>x\<close>.
\<close>

definition fdiv :: "real \<Rightarrow> real \<Rightarrow> fl" where
  "fdiv a b = (if b \<noteq> 0 then Fin (a / b)
               else if a = 0 then NaN else if a > 0 then PInf else NInf)"

section \<open>The input frame and the parameters\<close>

text \<open>
  A timestamp is the number of seconds since the epoch on the clock of the frame's
  index, taken as timezone-naive (the case \<open>in_ny_session_index\<close> treats as UTC);
  \<open>.date()\<close> is the day number.
\<close>

type_synonym timestamp = int

definition date :: "timestamp \<Rightarrow> int" where
  "date ts = ts div 86400"

text \<open>One row of the input frame: the index label and the five columns.\<close>

record bar =
  bar_time :: timestamp
  bar_open :: real
  bar_high :: real
  bar_low :: real
  bar_close :: real
  bar_volume :: real

text \<open>
  The \<open>params\<close> dictionary, one field per key the code reads. The session bounds are
  seconds of the day, \<open>tz\<close> gives the zone's offset from UTC in seconds at an instant,
  and \<open>htf\<close> is the length of a resampling bin in seconds (a divisor of a day, so that
  the bins start at multiples of their length).
\<close>

record params =
  ema9 :: nat
  ema21 :: nat
  ema60 :: nat
  ema200 :: nat
  macd_fast :: nat
  macd_slow :: nat
  macd_sig :: nat
  atr_len :: nat
  atr_mult :: real
  vol_sma_len :: nat
  vol_mult :: real
  session_start :: int
  session_end :: int
  tz :: "timestamp \<Rightarrow> int"
  htf :: int
  initial_equity :: real
  daily_loss_limit_pct :: real

text \<open>
  The defaults of the \<open>params.get\<close> calls, with New York taken at its winter offset.
\<close>

definition default_params :: params where
  "default_params =
     \<lparr>ema9 = 9, ema21 = 21, ema60 = 60, ema200 = 200,
      macd_fast = 12, macd_slow = 26, macd_sig = 9,
      atr_len = 14, atr_mult = 12 / 10,
      vol_sma_len = 20, vol_mult = 15 / 10,
      session_start = 30600, session_end = 57600, tz = (\<lambda>t. - 18000),
      htf = 3600,
      initial_equity = 100000, daily_loss_limit_pct = 15 / 100\<rparr>"

section \<open>utils.py\<close>

text \<open>
  \<open>series.ewm(span=span, adjust=False).mean()\<close>: the first value seeds the average and
  every later one is \<open>(1 - \<alpha>) * previous + \<alpha> * x\<close> with \<open>\<alpha> = 2 / (span + 1)\<close>.
  pandas demands \<open>span \<ge> 1\<close>.
\<close>

fun ewm_mean :: "real \<Rightarrow> real \<Rightarrow> real list \<Rightarrow> real list" where
  "ewm_mean a y [] = []"
| "ewm_mean a y (x # xs) = (let y' = (1 - a) * y + a * x in y' # ewm_mean a y' xs)"

definition ema :: "real list \<Rightarrow> nat \<Rightarrow> real list" where
  "ema series span' =
     (case series of [] \<Rightarrow> [] | x # xs \<Rightarrow> x # ewm_mean (2 / (real span' + 1)) x xs)"

definition macd :: "real list \<Rightarrow> nat \<Rightarrow> nat \<Rightarrow> nat \<Rightarrow> real list \<times> real list \<times> real list" where
  "macd series fast slow sig =
     (let fast_ema = ema series fast;
          slow_ema = ema series slow;
          macd_line = map2 (-) fast_ema slow_ema;
          macd_signal = ema macd_line sig;
          macd_hist = map2 (-) macd_line macd_signal
      in (macd_line, macd_signal, macd_hist))"

text \<open>\<open>shift(1)\<close>: the first cell is NaN (\<open>None\<close>), every other cell is the one before.\<close>

definition shift1 :: "real list \<Rightarrow> real option list" where
  "shift1 xs = (case xs of [] \<Rightarrow> [] | _ # _ \<Rightarrow> None # map Some (butlast xs))"

text \<open>
  \<open>rolling(n, min_periods=1).mean()\<close>: the mean of the last \<open>n\<close> values seen so far, of
  fewer while fewer have been seen. The second argument is the window before the
  current value.
\<close>

fun rolling_from :: "nat \<Rightarrow> real list \<Rightarrow> real list \<Rightarrow> real list" where
  "rolling_from n w [] = []"
| "rolling_from n w (x # xs) =
     (let w' = drop (Suc (length w) - n) (w @ [x])
      in (sum_list w' / real (length w')) # rolling_from n w' xs)"

definition rolling_mean :: "nat \<Rightarrow> real list \<Rightarrow> real list" where
  "rolling_mean n xs = rolling_from n [] xs"

text \<open>
  The row maximum of \<open>tr1\<close>, \<open>tr2\<close>, \<open>tr3\<close>, which skips the NaN cells of the first row.
\<close>

definition true_range :: "bar \<Rightarrow> real option \<Rightarrow> real" where
  "true_range b prev_close =
     (case prev_close of
        None \<Rightarrow> bar_high b - bar_low b
      | Some c \<Rightarrow> max (max (bar_high b - bar_low b) \<bar>bar_high b - c\<bar>) \<bar>bar_low b - c\<bar>)"

definition atr :: "bar list \<Rightarrow> nat \<Rightarrow> real list" where
  "atr df len = rolling_mean len (map2 true_range df (shift1 (map bar_close df)))"

fun cumsum_from :: "real \<Rightarrow> real list \<Rightarrow> real list" where
  "cumsum_from acc [] = []"
| "cumsum_from acc (x # xs) = (acc + x) # cumsum_from (acc + x) xs"

definition cumsum :: "real list \<Rightarrow> real list" where
  "cumsum xs = cumsum_from 0 xs"

text \<open>
  \<open>fillna(method='ffill')\<close> and \<open>ffill()\<close>: a NaN cell takes the value of the cell before
  it, already filled; the second argument is that value, NaN before the first cell.
\<close>

fun ffill_from :: "fl \<Rightarrow> fl list \<Rightarrow> fl list" where
  "ffill_from prv [] = []"
| "ffill_from prv (x # xs) = (let y = (if x = NaN then prv else x) in y # ffill_from y xs)"

definition ffill :: "fl list \<Rightarrow> fl list" where
  "ffill xs = ffill_from NaN xs"

definition typical_price :: "bar \<Rightarrow> real" where
  "typical_price b = (bar_high b + bar_low b + bar_close b) / 3"

definition vwap :: "bar list \<Rightarrow> fl list" where
  "vwap df =
     (let cum_vp = cumsum (map (\<lambda>b. typical_price b * bar_volume b) df);
          cum_vol = cumsum (map bar_volume df)
      in ffill (map2 fdiv cum_vp cum_vol))"

text \<open>
  The session mask: the local time of day of each label lies between \<open>start_t\<close> and
  \<open>end_t\<close>, both included.
\<close>

definition in_ny_session_index :: "timestamp list \<Rightarrow> int \<Rightarrow> int \<Rightarrow> (timestamp \<Rightarrow> int) \<Rightarrow> bool list" where
  "in_ny_session_index index start_t end_t zone =
     map (\<lambda>t. let tod = (t + zone t) mod 86400 in tod \<ge> start_t \<and> tod \<le> end_t) index"

section \<open>strategy.py: the indicator columns\<close>

text \<open>
  One row of the frame after \<open>prepare_indicators\<close> and the two higher-timeframe columns
  are attached: the cells that the filters read. The columns \<open>ema200\<close>, \<open>macd_line\<close> and
  \<open>macd_signal\<close> are computed by the program and read by nothing; they are left out.
  \<open>c_macd_hist_prev\<close> is the cell of \<open>macd_hist.shift(1)\<close>.
\<close>

record cols =
  c_name :: timestamp
  c_open :: real
  c_high :: real
  c_low :: real
  c_close :: real
  c_volume :: real
  c_ema9 :: real
  c_ema21 :: real
  c_ema60 :: real
  c_macd_hist :: real
  c_macd_hist_prev :: "real option"
  c_atr :: real
  c_vwap :: fl
  c_vol_sma :: real
  c_in_ny :: bool
  c_ema200_htf :: fl
  c_macd_hist_htf :: fl

section \<open>strategy.py: resampling to the higher timeframe\<close>

text \<open>The label of the bin of width \<open>w\<close> that holds the instant \<open>t\<close>.\<close>

definition bucket :: "int \<Rightarrow> timestamp \<Rightarrow> timestamp" where
  "bucket w t = (t div w) * w"

text \<open>
  \<open>resample\<close> makes one bin for every label from the first row's bin to the last row's,
  the empty ones included.
\<close>

definition bucket_labels :: "int \<Rightarrow> timestamp list \<Rightarrow> timestamp list" where
  "bucket_labels w index =
     (case index of
        [] \<Rightarrow> []
      | t0 # _ \<Rightarrow>
          map (\<lambda>k. bucket w t0 + int k * w)
            [0..<Suc (nat ((bucket w (last index) - bucket w t0) div w))])"

text \<open>Each bin's label with the values that fall in it, in the order of the series.\<close>

definition resample :: "int \<Rightarrow> (timestamp \<times> real) list \<Rightarrow> (timestamp \<times> real list) list" where
  "resample w series =
     map (\<lambda>l. (l, map snd (filter (\<lambda>tx. bucket w (fst tx) = l) series)))
       (bucket_labels w (map fst series))"

text \<open>\<open>.last()\<close>: the last value of each bin, NaN for an empty bin.\<close>

definition resample_last :: "int \<Rightarrow> (timestamp \<times> real) list \<Rightarrow> (timestamp \<times> fl) list" where
  "resample_last w series =
     map (\<lambda>(l, xs). (l, if xs = [] then NaN else Fin (last xs))) (resample w series)"

text \<open>
  Line 51: \<open>.apply(lambda x: ema(x, span)[-1] if len(x) > 0 else np.nan)\<close>, the function
  applied to the values of each bin; \<open>[-1]\<close> reads the last value of the bin's average.
\<close>

definition ema200_htf_column :: "params \<Rightarrow> (timestamp \<times> real) list \<Rightarrow> (timestamp \<times> fl) list" where
  "ema200_htf_column ps series =
     map (\<lambda>(l, x). (l, if length x > 0 then Fin (last (ema x (ema200 ps))) else NaN))
       (resample (htf ps) series)"

text \<open>
  The finite cells of a column. After \<open>ffill\<close> a column of last values is a run of NaN
  cells (empty when the first bin holds a row, as it always does) followed by finite
  cells only; \<open>ewm\<close> leaves leading NaN cells as they are and seeds the average at the
  first finite cell.
\<close>

definition fins :: "fl list \<Rightarrow> real list" where
  "fins xs = concat (map (\<lambda>x. case x of Fin r \<Rightarrow> [r] | _ \<Rightarrow> []) xs)"

text \<open>Lines 53 to 57: the histogram of \<open>macd\<close> over the forward-filled last values.\<close>

definition macd_hist_htf_column :: "params \<Rightarrow> (timestamp \<times> real) list \<Rightarrow> (timestamp \<times> fl) list" where
  "macd_hist_htf_column ps series =
     (let lst = resample_last (htf ps) series;
          filled = ffill (map snd lst);
          (macd_line_htf, macd_sig_htf, macd_hist_htf) =
             macd (fins filled) (macd_fast ps) (macd_slow ps) (macd_sig ps)
      in zip (map fst lst)
           (replicate (length filled - length macd_hist_htf) NaN @ map Fin macd_hist_htf))"

text \<open>
  \<open>reindex(df.index, method='ffill')\<close>: a row takes the cell of the last bin whose label
  is not after the row's own label, NaN when there is none.
\<close>

definition reindex_ffill :: "(timestamp \<times> fl) list \<Rightarrow> timestamp \<Rightarrow> fl" where
  "reindex_ffill column t =
     (case filter (\<lambda>lv. fst lv \<le> t) column of [] \<Rightarrow> NaN | lv # lvs \<Rightarrow> snd (last (lv # lvs)))"

text \<open>\<open>prepare_indicators\<close> followed by lines 49 to 62 of \<open>generate_signals\<close>.\<close>

definition indicator_columns :: "params \<Rightarrow> bar list \<Rightarrow> cols list" where
  "indicator_columns ps df =
     (let closes = map bar_close df;
          index = map bar_time df;
          e9 = ema closes (ema9 ps);
          e21 = ema closes (ema21 ps);
          e60 = ema closes (ema60 ps);
          (macd_line, macd_signal, macd_hist) =
             macd closes (macd_fast ps) (macd_slow ps) (macd_sig ps);
          hist_prev = shift1 macd_hist;
          atrs = atr df (atr_len ps);
          vwaps = vwap df;
          vol_sma = rolling_mean (vol_sma_len ps) (map bar_volume df);
          mask = in_ny_session_index index (session_start ps) (session_end ps) (tz ps);
          e200_htf = ema200_htf_column ps (zip index closes);
          hist_htf = macd_hist_htf_column ps (zip index closes)
      in map (\<lambda>i.
            \<lparr>c_name = index ! i, c_open = bar_open (df ! i), c_high = bar_high (df ! i),
             c_low = bar_low (df ! i), c_close = closes ! i, c_volume = bar_volume (df ! i),
             c_ema9 = e9 ! i, c_ema21 = e21 ! i, c_ema60 = e60 ! i,
             c_macd_hist = macd_hist ! i, c_macd_hist_prev = hist_prev ! i,
             c_atr = atrs ! i, c_vwap = vwaps ! i, c_vol_sma = vol_sma ! i,
             c_in_ny = mask ! i,
             c_ema200_htf = reindex_ffill e200_htf (index ! i),
             c_macd_hist_htf = reindex_ffill hist_htf (index ! i)\<rparr>)
          [0..<length df])"

section \<open>strategy.py: the filters and the signal\<close>

definition htf_bull :: "cols \<Rightarrow> bool" where
  "htf_bull c = (gt_fl (c_close c) (c_ema200_htf c) \<and> fl_pos (c_macd_hist_htf c))"

definition htf_bear :: "cols \<Rightarrow> bool" where
  "htf_bear c = (lt_fl (c_close c) (c_ema200_htf c) \<and> fl_neg (c_macd_hist_htf c))"

definition ema_long_stack :: "cols \<Rightarrow> bool" where
  "ema_long_stack c = (c_ema9 c > c_ema21 c \<and> c_ema21 c > c_ema60 c)"

definition ema_short_stack :: "cols \<Rightarrow> bool" where
  "ema_short_stack c = (c_ema9 c < c_ema21 c \<and> c_ema21 c < c_ema60 c)"

definition vol_ok :: "params \<Rightarrow> cols \<Rightarrow> bool" where
  "vol_ok ps c = (c_volume c > c_vol_sma c * vol_mult ps)"

definition vwap_long :: "cols \<Rightarrow> bool" where
  "vwap_long c = gt_fl (c_close c) (c_vwap c)"

definition vwap_short :: "cols \<Rightarrow> bool" where
  "vwap_short c = lt_fl (c_close c) (c_vwap c)"

definition macd_rising :: "cols \<Rightarrow> bool" where
  "macd_rising c = (case c_macd_hist_prev c of None \<Rightarrow> False | Some h \<Rightarrow> c_macd_hist c > h)"

definition macd_falling :: "cols \<Rightarrow> bool" where
  "macd_falling c = (case c_macd_hist_prev c of None \<Rightarrow> False | Some h \<Rightarrow> c_macd_hist c < h)"

text \<open>Lines 82 and 83.\<close>

definition pullback_to_ema :: "cols \<Rightarrow> bool" where
  "pullback_to_ema c =
     ((c_close c \<le> c_ema9 c \<and> c_close c \<ge> c_ema21 c) \<or>
      \<bar>c_close c - c_ema21 c\<bar> \<le> 15 / 10 * c_atr c)"

definition long_setup :: "params \<Rightarrow> cols \<Rightarrow> bool" where
  "long_setup ps c =
     (c_in_ny c \<and> htf_bull c \<and> ema_long_stack c \<and> vwap_long c \<and> vol_ok ps c \<and>
      macd_rising c \<and> pullback_to_ema c)"

definition short_setup :: "params \<Rightarrow> cols \<Rightarrow> bool" where
  "short_setup ps c =
     (c_in_ny c \<and> htf_bear c \<and> ema_short_stack c \<and> vwap_short c \<and> vol_ok ps c \<and>
      macd_falling c \<and> pullback_to_ema c)"

text \<open>
  Lines 90 to 92: the column starts at 0, the long rows are set to 1, then the short
  rows to -1.
\<close>

definition signal_of :: "params \<Rightarrow> cols \<Rightarrow> int" where
  "signal_of ps c = (if short_setup ps c then - 1 else if long_setup ps c then 1 else 0)"

text \<open>
  One row of the frame \<open>generate_signals\<close> returns, with the columns the simulator
  reads; \<open>name\<close> is the row's index label.
\<close>

record row =
  name :: timestamp
  row_open :: real
  row_high :: real
  row_low :: real
  row_close :: real
  row_atr :: real
  in_ny :: bool
  signal :: int
  ema9_break_long :: bool
  ema9_break_short :: bool
  macd_flip_long :: bool
  macd_flip_short :: bool

definition signal_row :: "params \<Rightarrow> cols \<Rightarrow> row" where
  "signal_row ps c =
     \<lparr>name = c_name c, row_open = c_open c, row_high = c_high c, row_low = c_low c,
      row_close = c_close c, row_atr = c_atr c, in_ny = c_in_ny c,
      signal = signal_of ps c,
      ema9_break_long = (c_close c < c_ema9 c),
      ema9_break_short = (c_close c > c_ema9 c),
      macd_flip_long = (c_macd_hist c < 0),
      macd_flip_short = (c_macd_hist c > 0)\<rparr>"

definition generate_signals :: "params \<Rightarrow> bar list \<Rightarrow> row list" where
  "generate_signals ps df_in = map (signal_row ps) (indicator_columns ps df_in)"

section \<open>backtest.py: the data of the simulator\<close>

datatype side = LONG | SHORT

text \<open>The position dictionary \<open>{'side','entry_price','stop','tp','qty','entry_time'}\<close>.\<close>

record position =
  side :: side
  entry_price :: real
  stop :: real
  tp :: real
  qty :: int
  entry_time :: timestamp

text \<open>A ledger entry \<open>{**position, 'exit_price', 'exit_time', 'pnl', 'reason'}\<close>.\<close>

record trade = position +
  exit_price :: real
  exit_time :: timestamp
  pnl :: real
  reason :: string

definition CONTRACT_TICK_VALUE :: real where
  "CONTRACT_TICK_VALUE = 10"

text \<open>The local variables of \<open>run_backtest\<close> that the loop updates.\<close>

record state =
  equity :: real
  daily_start :: int
  daily_pnl :: real
  pos :: "position option"
  trades :: "trade list"

section \<open>backtest.py: one iteration of the loop\<close>

text \<open>
  The five statements every exit branch ends with: append the trade, add the P&L to the
  equity and to the day's P&L, drop the position (and \<open>continue\<close>).
\<close>

definition book :: "position \<Rightarrow> real \<Rightarrow> real \<Rightarrow> string \<Rightarrow> row \<Rightarrow> state \<Rightarrow> state" where
  "book p ex_price p_l rsn r st =
     st\<lparr>trades := trades st @
           [\<lparr>side = side p, entry_price = entry_price p, stop = stop p, tp = tp p,
             qty = qty p, entry_time = entry_time p,
             exit_price = ex_price, exit_time = name r, pnl = p_l, reason = rsn\<rparr>],
        equity := equity st + p_l,
        daily_pnl := daily_pnl st + p_l,
        pos := None\<rparr>"

text \<open>Lines 136 to 150: the entry block.\<close>

definition entries :: "params \<Rightarrow> bool \<Rightarrow> row \<Rightarrow> state \<Rightarrow> state" where
  "entries ps can_open r st =
     (if pos st = None \<and> can_open then
        (if signal r = 1 then
           (let entry = row_open r;
                stp = entry - atr_mult ps * row_atr r;
                tgt = entry + 3 * (entry - stp)
            in st\<lparr>pos := Some \<lparr>side = LONG, entry_price = entry, stop = stp, tp = tgt,
                                 qty = 1, entry_time = name r\<rparr>\<rparr>)
         else if signal r = - 1 then
           (let entry = row_open r;
                stp = entry + atr_mult ps * row_atr r;
                tgt = entry - 3 * (stp - entry)
            in st\<lparr>pos := Some \<lparr>side = SHORT, entry_price = entry, stop = stp, tp = tgt,
                                 qty = 1, entry_time = name r\<rparr>\<rparr>)
         else st)
      else st)"

text \<open>Lines 38 to 40: the daily reset.\<close>

definition daily_reset :: "row \<Rightarrow> state \<Rightarrow> state" where
  "daily_reset r st =
     (if date (name r) \<noteq> daily_start st
      then st\<lparr>daily_start := date (name r), daily_pnl := 0\<rparr> else st)"

text \<open>Lines 43 to 47.\<close>

definition can_open_of :: "params \<Rightarrow> state \<Rightarrow> bool" where
  "can_open_of ps st =
     (if daily_pnl st \<le> - daily_loss_limit_pct ps * equity st then False else True)"

text \<open>Lines 50 to 133: the exit checks for an open position, then the entry block.\<close>

definition closes :: "params \<Rightarrow> bool \<Rightarrow> row \<Rightarrow> row \<Rightarrow> state \<Rightarrow> state" where
  "closes ps can_open prev r st =
     (case pos st of
        None \<Rightarrow> entries ps can_open r st
      | Some p \<Rightarrow>
         (case side p of
            LONG \<Rightarrow>
              if row_low r \<le> stop p then
                book p (stop p)
                  ((stop p - entry_price p) * real_of_int (qty p) * CONTRACT_TICK_VALUE)
                  ''stop'' r st
              else if row_high r \<ge> tp p then
                book p (tp p)
                  ((tp p - entry_price p) * real_of_int (qty p) * CONTRACT_TICK_VALUE)
                  ''tp'' r st
              else if ema9_break_long r \<or> macd_flip_long r then
                book p (row_close r)
                  ((row_close r - entry_price p) * real_of_int (qty p) * CONTRACT_TICK_VALUE)
                  ''technical_exit'' r st
              else if \<not> in_ny r \<and> in_ny prev then
                book p (row_close r)
                  ((row_close r - entry_price p) * real_of_int (qty p) * CONTRACT_TICK_VALUE)
                  ''session_close'' r st
              else entries ps can_open r st
          | SHORT \<Rightarrow>
              if row_high r \<ge> stop p then
                book p (stop p)
                  ((entry_price p - stop p) * real_of_int (qty p) * CONTRACT_TICK_VALUE)
                  ''stop'' r st
              else if row_low r \<le> tp p then
                book p (tp p)
                  ((entry_price p - tp p) * real_of_int (qty p) * CONTRACT_TICK_VALUE)
                  ''tp'' r st
              else if ema9_break_short r \<or> macd_flip_short r then
                book p (row_close r)
                  ((entry_price p - row_close r) * real_of_int (qty p) * CONTRACT_TICK_VALUE)
                  ''technical_exit'' r st
              else if \<not> in_ny r \<and> in_ny prev then
                book p (row_close r)
                  ((entry_price p - row_close r) * real_of_int (qty p) * CONTRACT_TICK_VALUE)
                  ''session_close'' r st
              else entries ps can_open r st))"

text \<open>The body of \<open>for i in range(1, len(df))\<close> with \<open>prev = df.iloc[i-1]\<close>, \<open>row = df.iloc[i]\<close>.\<close>

definition loop_body :: "params \<Rightarrow> row \<Rightarrow> row \<Rightarrow> state \<Rightarrow> state" where
  "loop_body ps prev r st =
     (let st1 = daily_reset r st in closes ps (can_open_of ps st1) prev r st1)"

fun loop :: "params \<Rightarrow> row \<Rightarrow> row list \<Rightarrow> state \<Rightarrow> state" where
  "loop ps prev [] st = st"
| "loop ps prev (r # rs) st = loop ps r rs (loop_body ps prev r st)"

section \<open>backtest.py: the end of the run and the summary\<close>

text \<open>Lines 153 to 160: a position still open is closed at the last row's close.\<close>

definition end_of_data :: "row \<Rightarrow> state \<Rightarrow> state" where
  "end_of_data lst st =
     (case pos st of
        None \<Rightarrow> st
      | Some p \<Rightarrow>
          (let ex_price = row_close lst;
               p_l = (case side p of
                        LONG \<Rightarrow> (ex_price - entry_price p) * real_of_int (qty p) * CONTRACT_TICK_VALUE
                      | SHORT \<Rightarrow> (entry_price p - ex_price) * real_of_int (qty p) * CONTRACT_TICK_VALUE)
           in st\<lparr>trades := trades st @
                   [\<lparr>side = side p, entry_price = entry_price p, stop = stop p, tp = tp p,
                     qty = qty p, entry_time = entry_time p,
                     exit_price = ex_price, exit_time = name lst, pnl = p_l,
                     reason = ''end_of_data''\<rparr>],
                 equity := equity st + p_l\<rparr>))"

datatype error = IndexError | KeyError

text \<open>What the run prints and returns.\<close>

record summary =
  ledger :: "trade list"
  final_equity :: real
  total_pnl :: real
  win_rate :: fl
  profit_factor :: fl

text \<open>
  Lines 162 to 168. \<open>pd.DataFrame([])\<close> has no columns, so \<open>trades_df['pnl']\<close> on line 165
  raises KeyError when the ledger is empty; line 164 is guarded by \<open>trades_df.empty\<close> and
  is evaluated first. The divisor of the profit factor is \<open>-losses['pnl'].sum()\<close>, which is
  \<open>-0.0\<close> when the sum is zero, so the quotient of a positive numerator is minus infinity.
\<close>

definition metrics :: "trade list \<Rightarrow> real \<Rightarrow> error + summary" where
  "metrics ts eq =
     (let total = (if ts \<noteq> [] then sum_list (map pnl ts) else 0) in
      if ts = [] then Inl KeyError
      else
        (let wins = filter (\<lambda>t. pnl t > 0) ts;
             losses = filter (\<lambda>t. pnl t \<le> 0) ts;
             wr = (if length ts > 0 then Fin (real (length wins) / real (length ts)) else NaN);
             pf = (if length losses > 0 then
                     (let w = sum_list (map pnl wins); l = sum_list (map pnl losses)
                      in if l \<noteq> 0 then Fin (w / (- l))
                         else if w = 0 then NaN else if w > 0 then NInf else PInf)
                   else NaN)
         in Inr \<lparr>ledger = ts, final_equity = eq, total_pnl = total,
                  win_rate = wr, profit_factor = pf\<rparr>))"

text \<open>
  \<open>run_backtest\<close> on the frame of signal rows: \<open>df.index[0]\<close> on line 27 raises IndexError
  on an empty frame.
\<close>

definition run_rows :: "params \<Rightarrow> row list \<Rightarrow> error + summary" where
  "run_rows ps rows =
     (case rows of
        [] \<Rightarrow> Inl IndexError
      | r0 # rs \<Rightarrow>
          (let st0 = \<lparr>equity = initial_equity ps, daily_start = date (name r0),
                      daily_pnl = 0, pos = None, trades = []\<rparr>;
               st1 = loop ps r0 rs st0;
               st2 = end_of_data (last rows) st1
           in metrics (trades st2) (equity st2)))"


text \<open>\<open>run_backtest\<close>: the signals are generated first, then the rows are simulated.\<close>

definition run_backtest :: "params \<Rightarrow> bar list \<Rightarrow> error + summary" where
  "run_backtest ps df = run_rows ps (generate_signals ps df)"

section \<open>The exit rules as the specification words them\<close>

text \<open>
  The four exit conditions of the specification's transition 3, one predicate each, and
  the realised P&L of a close; \<open>spec_first_exit\<close> is the first rule that matches, in the
  order stop, target, technical exit, session close, with the reason the program
  records and the exit price.
\<close>

definition spec_stop_hit :: "position \<Rightarrow> row \<Rightarrow> bool" where
  "spec_stop_hit p r =
     (case side p of LONG \<Rightarrow> row_low r \<le> stop p | SHORT \<Rightarrow> row_high r \<ge> stop p)"

definition spec_target_hit :: "position \<Rightarrow> row \<Rightarrow> bool" where
  "spec_target_hit p r =
     (case side p of LONG \<Rightarrow> row_high r \<ge> tp p | SHORT \<Rightarrow> row_low r \<le> tp p)"

definition spec_technical :: "position \<Rightarrow> row \<Rightarrow> bool" where
  "spec_technical p r =
     (case side p of
        LONG \<Rightarrow> ema9_break_long r \<or> macd_flip_long r
      | SHORT \<Rightarrow> ema9_break_short r \<or> macd_flip_short r)"

definition spec_session_close :: "row \<Rightarrow> row \<Rightarrow> bool" where
  "spec_session_close prev r = (in_ny prev \<and> \<not> in_ny r)"

definition spec_pnl :: "position \<Rightarrow> real \<Rightarrow> real" where
  "spec_pnl p ex =
     (case side p of
        LONG \<Rightarrow> (ex - entry_price p) * real_of_int (qty p) * CONTRACT_TICK_VALUE
      | SHORT \<Rightarrow> (entry_price p - ex) * real_of_int (qty p) * CONTRACT_TICK_VALUE)"

definition spec_first_exit :: "position \<Rightarrow> row \<Rightarrow> row \<Rightarrow> (string \<times> real) option" where
  "spec_first_exit p prev r =
     (if spec_stop_hit p r then Some (''stop'', stop p)
      else if spec_target_hit p r then Some (''tp'', tp p)
      else if spec_technical p r then Some (''technical_exit'', row_close r)
      else if spec_session_close prev r then Some (''session_close'', row_close r)
      else None)"

section \<open>Invariants of the loop\<close>

text \<open>A trade that one of the four exit rules books for the position \<open>p\<close> on the row \<open>r\<close>.\<close>

definition closing_trade :: "position \<Rightarrow> row \<Rightarrow> trade \<Rightarrow> bool" where
  "closing_trade p r t =
     (entry_time t = entry_time p \<and> exit_time t = name r \<and>
      reason t \<in> {''stop'', ''tp'', ''technical_exit'', ''session_close''})"

text \<open>
  After the row \<open>prev\<close>: an open position was entered on it or earlier, and every trade
  in the ledger was closed strictly after it was entered.
\<close>

definition timing_ok :: "row \<Rightarrow> state \<Rightarrow> bool" where
  "timing_ok prev st =
     ((case pos st of None \<Rightarrow> True | Some p \<Rightarrow> entry_time p \<le> name prev) \<and>
      list_all (\<lambda>t. reason t \<noteq> ''end_of_data'' \<and> entry_time t < exit_time t) (trades st))"

section \<open>Example frames\<close>

text \<open>
  Three one-minute bars at 13:59, 14:00 and 14:01 UTC, in two hourly bins. With the
  default spans, every long filter holds on the second bar, whose open is 100 and whose
  ATR is 1; the third bar trades down to 98.
\<close>

definition scenario_bars :: "bar list" where
  "scenario_bars =
     [\<lparr>bar_time = 50340, bar_open = 995 / 10, bar_high = 9975 / 100, bar_low = 9925 / 100,
       bar_close = 995 / 10, bar_volume = 100\<rparr>,
      \<lparr>bar_time = 50400, bar_open = 100, bar_high = 101, bar_low = 995 / 10,
       bar_close = 1009 / 10, bar_volume = 400\<rparr>,
      \<lparr>bar_time = 50460, bar_open = 1005 / 10, bar_high = 1006 / 10, bar_low = 98,
       bar_close = 100, bar_volume = 100\<rparr>]"

definition scenario_params :: params where
  "scenario_params = default_params\<lparr>atr_mult := 1\<rparr>"

text \<open>The rows \<open>generate_signals\<close> makes of them.\<close>

definition scenario_rows :: "row list" where
  "scenario_rows =
     [\<lparr>name = 50340, row_open = 995 / 10, row_high = 9975 / 100, row_low = 9925 / 100,
       row_close = 995 / 10, row_atr = 1 / 2, in_ny = True, signal = 0,
       ema9_break_long = False, ema9_break_short = False,
       macd_flip_long = False, macd_flip_short = False\<rparr>,
      \<lparr>name = 50400, row_open = 100, row_high = 101, row_low = 995 / 10,
       row_close = 1009 / 10, row_atr = 1, in_ny = True, signal = 1,
       ema9_break_long = False, ema9_break_short = True,
       macd_flip_long = False, macd_flip_short = True\<rparr>,
      \<lparr>name = 50460, row_open = 1005 / 10, row_high = 1006 / 10, row_low = 98,
       row_close = 100, row_atr = 49 / 30, in_ny = True, signal = 0,
       ema9_break_long = False, ema9_break_short = True,
       macd_flip_long = False, macd_flip_short = True\<rparr>]"

text \<open>The long position the second bar opens, and the state that holds it.\<close>

definition scenario_position :: position where
  "scenario_position =
     \<lparr>side = LONG, entry_price = 100, stop = 99, tp = 103, qty = 1, entry_time = 50400\<rparr>"

definition scenario_state :: state where
  "scenario_state =
     \<lparr>equity = 100000, daily_start = 0, daily_pnl = 0, pos = Some scenario_position,
      trades = []\<rparr>"

text \<open>
  The same frame with a third bar that trades up through the target of 103 and stays
  above the stop.
\<close>

definition target_bars :: "bar list" where
  "target_bars =
     [scenario_bars ! 0, scenario_bars ! 1,
      \<lparr>bar_time = 50460, bar_open = 1005 / 10, bar_high = 1035 / 10, bar_low = 999 / 10,
       bar_close = 100, bar_volume = 100\<rparr>]"

text \<open>
  A row on which all four exit rules match a long position entered at 100 with stop 99
  and target 103, and on which an entry signal fires; and a row before it, in session.
\<close>

definition busy_row :: row where
  "busy_row =
     \<lparr>name = 50460, row_open = 100, row_high = 104, row_low = 98, row_close = 100,
      row_atr = 1, in_ny = False, signal = 1,
      ema9_break_long = True, ema9_break_short = False,
      macd_flip_long = True, macd_flip_short = False\<rparr>"

text \<open>Two flat bars: no filter passes, no position opens, the ledger stays empty.\<close>

definition quiet_bars :: "bar list" where
  "quiet_bars =
     [\<lparr>bar_time = 50340, bar_open = 100, bar_high = 100, bar_low = 100, bar_close = 100,
       bar_volume = 100\<rparr>,
      \<lparr>bar_time = 50400, bar_open = 100, bar_high = 100, bar_low = 100, bar_close = 100,
       bar_volume = 100\<rparr>]"

section \<open>VWAP as the specification words it\<close>

text \<open>
  The cumulative sums from the first bar of the frame up to and including bar \<open>i\<close>, and
  their quotient as a float.
\<close>

definition spec_cum_vp :: "bar list \<Rightarrow> nat \<Rightarrow> real" where
  "spec_cum_vp df i = (\<Sum>b\<leftarrow>take (Suc i) df. typical_price b * bar_volume b)"

definition spec_cum_vol :: "bar list \<Rightarrow> nat \<Rightarrow> real" where
  "spec_cum_vol df i = (\<Sum>b\<leftarrow>take (Suc i) df. bar_volume b)"

definition spec_ratio :: "bar list \<Rightarrow> nat \<Rightarrow> fl" where
  "spec_ratio df i = fdiv (spec_cum_vp df i) (spec_cum_vol df i)"

text \<open>The column \<open>cum_vp / cum_vol\<close> before it is filled.\<close>

definition ratios :: "bar list \<Rightarrow> fl list" where
  "ratios df = map2 fdiv (cumsum (map (\<lambda>b. typical_price b * bar_volume b) df))
                         (cumsum (map bar_volume df))"

section \<open>More example frames\<close>

text \<open>
  A first bar without volume, then two bars with volume, the last on the next day.
\<close>

definition gap_bars :: "bar list" where
  "gap_bars =
     [\<lparr>bar_time = 50340, bar_open = 10, bar_high = 12, bar_low = 9, bar_close = 9,
       bar_volume = 0\<rparr>,
      \<lparr>bar_time = 50400, bar_open = 9, bar_high = 12, bar_low = 9, bar_close = 12,
       bar_volume = 2\<rparr>,
      \<lparr>bar_time = 136800, bar_open = 12, bar_high = 15, bar_low = 12, bar_close = 15,
       bar_volume = 1\<rparr>]"

text \<open>
  Three bars whose last one passes every long filter: the position it opens is still
  open when the frame ends.
\<close>

definition late_bars :: "bar list" where
  "late_bars =
     [\<lparr>bar_time = 50340, bar_open = 100, bar_high = 1001 / 10, bar_low = 999 / 10,
       bar_close = 100, bar_volume = 100\<rparr>,
      \<lparr>bar_time = 50400, bar_open = 100, bar_high = 1006 / 10, bar_low = 999 / 10,
       bar_close = 1005 / 10, bar_volume = 100\<rparr>,
      \<lparr>bar_time = 50460, bar_open = 1005 / 10, bar_high = 1012 / 10, bar_low = 1002 / 10,
       bar_close = 101, bar_volume = 1000\<rparr>]"

text \<open>
  The cells of a row on which every long filter but the higher-timeframe one holds, its
  higher-timeframe ema200 being NaN; and a state with no open position.
\<close>

definition nan_cols :: cols where
  "nan_cols =
     \<lparr>c_name = 50400, c_open = 100, c_high = 101, c_low = 995 / 10, c_close = 1009 / 10,
      c_volume = 400, c_ema9 = 9978 / 100, c_ema21 = 9963 / 100, c_ema60 = 9955 / 100,
      c_macd_hist = 1 / 10, c_macd_hist_prev = Some 0, c_atr = 1, c_vwap = Fin 100,
      c_vol_sma = 250, c_in_ny = True, c_ema200_htf = NaN, c_macd_hist_htf = Fin 1\<rparr>"

definition idle_state :: state where
  "idle_state =
     \<lparr>equity = 100000, daily_start = 0, daily_pnl = 0, pos = None, trades = []\<rparr>"

section \<open>The higher-timeframe ema200 and the pullback filter as the specification words them\<close>

text \<open>
  The specification's higher-timeframe ema200: the EMA recurrence run over the series of
  each bin's last close, built as the program builds the series for the higher-timeframe
  MACD histogram (last value per bin, forward-filled), one value per bin.
\<close>

definition spec_ema200_htf_column :: "params \<Rightarrow> (timestamp \<times> real) list \<Rightarrow> (timestamp \<times> fl) list" where
  "spec_ema200_htf_column ps series =
     (let lst = resample_last (htf ps) series;
          filled = ffill (map snd lst);
          e = ema (fins filled) (ema200 ps)
      in zip (map fst lst) (replicate (length filled - length e) NaN @ map Fin e))"

text \<open>
  The specification's pullback filter: the close lies between ema9 and ema21, both
  included, in either order, or within 1.5 ATR of ema21.
\<close>

definition spec_pullback :: "cols \<Rightarrow> bool" where
  "spec_pullback c =
     ((c_ema21 c \<le> c_close c \<and> c_close c \<le> c_ema9 c) \<or>
      (c_ema9 c \<le> c_close c \<and> c_close c \<le> c_ema21 c) \<or>
      \<bar>c_close c - c_ema21 c\<bar> \<le> 15 / 10 * c_atr c)"

text \<open>
  Twelve one-minute bars without range: ten steady declines of 1 from 100 to 90, then a
  rebound to 94.
\<close>

definition flat_bar :: "timestamp \<Rightarrow> real \<Rightarrow> bar" where
  "flat_bar t p =
     \<lparr>bar_time = t, bar_open = p, bar_high = p, bar_low = p, bar_close = p, bar_volume = 100\<rparr>"

definition dip_bars :: "bar list" where
  "dip_bars =
     [flat_bar 50400 100, flat_bar 50460 99, flat_bar 50520 98, flat_bar 50580 97,
      flat_bar 50640 96, flat_bar 50700 95, flat_bar 50760 94, flat_bar 50820 93,
      flat_bar 50880 92, flat_bar 50940 91, flat_bar 51000 90, flat_bar 51060 94]"

section \<open>The loop body, case by case\<close>

lemma pos_daily_reset: "pos (daily_reset r st) = pos st"
  by (simp add: daily_reset_def)

lemma trades_daily_reset: "trades (daily_reset r st) = trades st"
  by (simp add: daily_reset_def)

lemma equity_daily_reset: "equity (daily_reset r st) = equity st"
  by (simp add: daily_reset_def)

lemma entries_held: "pos st = Some p \<Longrightarrow> entries ps c r st = st"
  by (simp add: entries_def)

lemma entries_trades: "trades (entries ps c r st) = trades st"
  by (simp add: entries_def Let_def)

lemma entries_pos:
  "pos st = None \<Longrightarrow>
   pos (entries ps c r st) = None \<or>
   (\<exists>p. pos (entries ps c r st) = Some p \<and> entry_time p = name r)"
  by (simp add: entries_def Let_def)

lemma closes_cases:
  "(pos st = None \<and> trades (closes ps c prev r st) = trades st \<and>
      (pos (closes ps c prev r st) = None \<or>
       (\<exists>p. pos (closes ps c prev r st) = Some p \<and> entry_time p = name r)))
   \<or> (\<exists>p. pos st = Some p \<and> pos (closes ps c prev r st) = Some p \<and>
          trades (closes ps c prev r st) = trades st)
   \<or> (\<exists>p t. pos st = Some p \<and> pos (closes ps c prev r st) = None \<and>
          trades (closes ps c prev r st) = trades st @ [t] \<and> closing_trade p r t)"
proof (cases "pos st")
  case None
  then show ?thesis
    using entries_pos [of st ps c r] by (simp add: closes_def entries_trades)
next
  case (Some p)
  then show ?thesis
    by (cases "side p") (simp_all add: closes_def entries_held book_def closing_trade_def)
qed

lemma loop_body_cases:
  "(pos st = None \<and> trades (loop_body ps prev r st) = trades st \<and>
      (pos (loop_body ps prev r st) = None \<or>
       (\<exists>p. pos (loop_body ps prev r st) = Some p \<and> entry_time p = name r)))
   \<or> (\<exists>p. pos st = Some p \<and> pos (loop_body ps prev r st) = Some p \<and>
          trades (loop_body ps prev r st) = trades st)
   \<or> (\<exists>p t. pos st = Some p \<and> pos (loop_body ps prev r st) = None \<and>
          trades (loop_body ps prev r st) = trades st @ [t] \<and> closing_trade p r t)"
  using closes_cases [of "daily_reset r st" ps "can_open_of ps (daily_reset r st)" prev r]
  by (simp add: loop_body_def Let_def pos_daily_reset trades_daily_reset)

lemma loop_body_first_exit:
  assumes "pos st = Some p"
  shows "loop_body ps prev r st =
           (case spec_first_exit p prev r of
              Some (rsn, ex) \<Rightarrow> book p ex (spec_pnl p ex) rsn r (daily_reset r st)
            | None \<Rightarrow> daily_reset r st)"
proof -
  have "pos (daily_reset r st) = Some p"
    using assms by (simp add: pos_daily_reset)
  then show ?thesis
    by (cases "side p")
       (simp_all add: loop_body_def closes_def Let_def entries_held spec_first_exit_def
          spec_stop_hit_def spec_target_hit_def spec_technical_def spec_session_close_def
          spec_pnl_def)
qed

section \<open>The ledger of a run\<close>

lemma loop_reasons:
  "\<forall>t\<in>set (trades st). reason t \<in> {''stop'', ''tp'', ''technical_exit'', ''session_close''}
   \<Longrightarrow> \<forall>t\<in>set (trades (loop ps prev rs st)).
         reason t \<in> {''stop'', ''tp'', ''technical_exit'', ''session_close''}"
proof (induction rs arbitrary: prev st)
  case Nil
  then show ?case by simp
next
  case (Cons r rs)
  have "\<forall>t\<in>set (trades (loop_body ps prev r st)).
          reason t \<in> {''stop'', ''tp'', ''technical_exit'', ''session_close''}"
    using loop_body_cases [of st ps prev r] Cons.prems
    by (auto simp: closing_trade_def)
  then show ?case using Cons.IH by simp
qed

lemma end_of_data_trades:
  "(trades (end_of_data lst st) = trades st \<and> pos st = None) \<or>
   (\<exists>p t. pos st = Some p \<and> trades (end_of_data lst st) = trades st @ [t] \<and>
      reason t = ''end_of_data'' \<and> entry_time t = entry_time p \<and> exit_time t = name lst)"
  by (cases "pos st") (simp_all add: end_of_data_def Let_def)

lemma metrics_ledger: "metrics ts eq = Inr s \<Longrightarrow> ledger s = ts \<and> final_equity s = eq"
  by (auto simp: metrics_def Let_def split: if_splits)

lemma run_rows_ledger:
  "run_rows ps (r0 # rs) = Inr s \<Longrightarrow>
   ledger s = trades (end_of_data (last (r0 # rs))
     (loop ps r0 rs \<lparr>equity = initial_equity ps, daily_start = date (name r0),
                      daily_pnl = 0, pos = None, trades = []\<rparr>))"
  by (simp add: run_rows_def Let_def metrics_ledger)

lemma run_rows_reasons:
  assumes "run_rows ps rows = Inr s" and "t \<in> set (ledger s)"
  shows "reason t \<in> {''stop'', ''tp'', ''technical_exit'', ''session_close'', ''end_of_data''}"
proof (cases rows)
  case Nil
  then show ?thesis using assms by (simp add: run_rows_def)
next
  case (Cons r0 rs)
  define st0 where "st0 = \<lparr>equity = initial_equity ps, daily_start = date (name r0),
                      daily_pnl = 0, pos = None, trades = []\<rparr>"
  have l: "ledger s = trades (end_of_data (last (r0 # rs)) (loop ps r0 rs st0))"
    using run_rows_ledger assms(1) Cons by (simp add: st0_def)
  have "\<forall>t\<in>set (trades (loop ps r0 rs st0)).
          reason t \<in> {''stop'', ''tp'', ''technical_exit'', ''session_close''}"
    by (rule loop_reasons) (simp add: st0_def)
  then show ?thesis
    using end_of_data_trades [of "last (r0 # rs)" "loop ps r0 rs st0"] assms(2) l
    by auto
qed

lemma loop_body_timing:
  assumes "name prev < name r" and "timing_ok prev st"
  shows "timing_ok r (loop_body ps prev r st)"
  using loop_body_cases [of st ps prev r] assms
  by (auto simp: timing_ok_def closing_trade_def split: option.splits)

lemma loop_timing:
  "sorted_wrt (<) (map name (prev # rs)) \<Longrightarrow> timing_ok prev st
   \<Longrightarrow> timing_ok (last (prev # rs)) (loop ps prev rs st)"
proof (induction rs arbitrary: prev st)
  case Nil
  then show ?case by simp
next
  case (Cons r rs)
  have lt: "name prev < name r" using Cons.prems(1) by simp
  have srt: "sorted_wrt (<) (map name (r # rs))" using Cons.prems(1) by simp
  have "timing_ok r (loop_body ps prev r st)"
    using loop_body_timing [OF lt Cons.prems(2)] .
  from Cons.IH [OF srt this] show ?case by simp
qed

lemma run_rows_timing:
  assumes "sorted_wrt (<) (map name rows)" and "run_rows ps rows = Inr s"
    and "t \<in> set (ledger s)"
  shows "(reason t \<noteq> ''end_of_data'' \<longrightarrow> entry_time t < exit_time t) \<and>
         (reason t = ''end_of_data'' \<longrightarrow>
            entry_time t \<le> exit_time t \<and> exit_time t = name (last rows))"
proof (cases rows)
  case Nil
  then show ?thesis using assms by (simp add: run_rows_def)
next
  case (Cons r0 rs)
  define st0 where "st0 = \<lparr>equity = initial_equity ps, daily_start = date (name r0),
                      daily_pnl = 0, pos = None, trades = []\<rparr>"
  define st1 where "st1 = loop ps r0 rs st0"
  have l: "ledger s = trades (end_of_data (last rows) st1)"
    using run_rows_ledger assms(2) Cons by (simp add: st0_def st1_def)
  have "timing_ok r0 st0" by (simp add: timing_ok_def st0_def)
  then have ok: "timing_ok (last rows) st1"
    using loop_timing [of r0 rs st0 ps] assms(1) Cons by (simp add: st1_def)
  show ?thesis
    using end_of_data_trades [of "last rows" st1] assms(3) l ok
    by (auto simp: timing_ok_def list_all_iff)
qed

section \<open>The frame of signals\<close>

lemma length_indicator_columns: "length (indicator_columns ps df) = length df"
  by (simp add: indicator_columns_def Let_def split: prod.splits)

lemma name_generate_signals: "map name (generate_signals ps df) = map bar_time df"
proof -
  have "map (\<lambda>i. map bar_time df ! i) [0..<length df] = map bar_time df"
    using map_nth [of "map bar_time df"] by simp
  then show ?thesis
    by (simp add: generate_signals_def indicator_columns_def Let_def signal_row_def
          o_def split: prod.splits)
qed

lemma generate_signals_Nil: "generate_signals ps [] = []"
  by (simp add: generate_signals_def indicator_columns_def Let_def split: prod.splits)

lemma scenario_signals: "generate_signals scenario_params scenario_bars = scenario_rows"
  by code_simp

lemma scenario_run:
  "run_backtest scenario_params scenario_bars =
     Inr \<lparr>ledger =
            [\<lparr>side = LONG, entry_price = 100, stop = 99, tp = 103, qty = 1,
              entry_time = 50400, exit_price = 99, exit_time = 50460,
              pnl = - 10, reason = ''stop''\<rparr>],
          final_equity = 99990, total_pnl = - 10, win_rate = Fin 0,
          profit_factor = Fin 0\<rparr>"
  by code_simp

lemma target_run:
  "run_backtest scenario_params target_bars =
     Inr \<lparr>ledger =
            [\<lparr>side = LONG, entry_price = 100, stop = 99, tp = 103, qty = 1,
              entry_time = 50400, exit_price = 103, exit_time = 50460,
              pnl = 30, reason = ''tp''\<rparr>],
          final_equity = 100030, total_pnl = 30, win_rate = Fin 1,
          profit_factor = NaN\<rparr>"
  by code_simp

lemma quiet_run: "run_backtest default_params quiet_bars = Inl KeyError"
  by code_simp

section \<open>Cumulative sums and forward filling\<close>

lemma length_cumsum_from: "length (cumsum_from acc xs) = length xs"
  by (induction xs arbitrary: acc) simp_all

lemma nth_cumsum_from:
  "i < length xs \<Longrightarrow> cumsum_from acc xs ! i = acc + sum_list (take (Suc i) xs)"
proof (induction xs arbitrary: acc i)
  case Nil
  then show ?case by simp
next
  case (Cons x xs)
  show ?case
  proof (cases i)
    case 0
    then show ?thesis by simp
  next
    case (Suc j)
    then have "j < length xs" using Cons.prems by simp
    then show ?thesis using Cons.IH [of j "acc + x"] Suc by simp
  qed
qed

lemma length_ffill_from: "length (ffill_from p xs) = length xs"
  by (induction xs arbitrary: p) (simp_all add: Let_def)

lemma nth_ffill_from:
  "i < length xs \<Longrightarrow>
   ffill_from p xs ! i =
     (if xs ! i \<noteq> NaN then xs ! i else if i = 0 then p else ffill_from p xs ! (i - 1))"
proof (induction xs arbitrary: p i)
  case Nil
  then show ?case by simp
next
  case (Cons x xs)
  show ?case
  proof (cases i)
    case 0
    then show ?thesis by (simp add: Let_def)
  next
    case (Suc j)
    then have j: "j < length xs" using Cons.prems by simp
    show ?thesis
    proof (cases j)
      case 0
      then show ?thesis
        using Suc j by (cases xs) (simp_all add: Let_def)
    next
      case (Suc k)
      then show ?thesis
        using Cons.IH [OF j, of "if x = NaN then p else x"] \<open>i = Suc j\<close>
        by (simp add: Let_def)
    qed
  qed
qed

lemma ffill_from_defined:
  "i < length xs \<Longrightarrow> j \<le> i \<Longrightarrow> xs ! j \<noteq> NaN \<Longrightarrow> ffill_from p xs ! i \<noteq> NaN"
proof (induction i)
  case 0
  then show ?case using nth_ffill_from [of 0 xs p] by simp
next
  case (Suc i)
  show ?case
  proof (cases "xs ! Suc i = NaN")
    case False
    then show ?thesis using nth_ffill_from [OF Suc.prems(1), of p] by simp
  next
    case True
    then have "j \<le> i" using Suc.prems by (cases "j = Suc i") auto
    then have "ffill_from p xs ! i \<noteq> NaN" using Suc by simp
    then show ?thesis using nth_ffill_from [OF Suc.prems(1), of p] True by simp
  qed
qed

lemma ffill_from_leading:
  "i < length xs \<Longrightarrow> \<forall>j\<le>i. xs ! j = NaN \<Longrightarrow> ffill_from p xs ! i = p"
proof (induction i)
  case 0
  then show ?case using nth_ffill_from [of 0 xs p] by simp
next
  case (Suc i)
  then have "ffill_from p xs ! i = p" by simp
  then show ?case using nth_ffill_from [OF Suc.prems(1), of p] Suc.prems(2) by simp
qed

lemma length_ratios: "length (ratios df) = length df"
  by (simp add: ratios_def cumsum_def length_cumsum_from)

lemma nth_ratios: "i < length df \<Longrightarrow> ratios df ! i = spec_ratio df i"
  by (simp add: ratios_def cumsum_def length_cumsum_from nth_cumsum_from spec_ratio_def
        spec_cum_vp_def spec_cum_vol_def take_map)

lemma vwap_ratios: "vwap df = ffill_from NaN (ratios df)"
  by (simp add: vwap_def ratios_def ffill_def Let_def)

section \<open>The filters on undefined cells\<close>

lemma htf_nan_filters:
  "c_ema200_htf c = NaN \<or> c_macd_hist_htf c = NaN \<Longrightarrow> \<not> htf_bull c \<and> \<not> htf_bear c"
  by (auto simp: htf_bull_def htf_bear_def)

lemma entries_no_signal:
  "signal r = 0 \<Longrightarrow> entries ps c r st = st"
  by (simp add: entries_def)

section \<open>The cells of the indicator columns\<close>

lemma indicator_cells:
  "i < length df \<Longrightarrow>
   c_close (indicator_columns ps df ! i) = bar_close (df ! i) \<and>
   c_ema9 (indicator_columns ps df ! i) = ema (map bar_close df) (ema9 ps) ! i \<and>
   c_ema21 (indicator_columns ps df ! i) = ema (map bar_close df) (ema21 ps) ! i \<and>
   c_atr (indicator_columns ps df ! i) = atr df (atr_len ps) ! i"
  by (simp add: indicator_columns_def Let_def split: prod.splits)

lemma dip_cells:
  "(\<lambda>c. (c_close c, c_ema9 c, c_ema21 c, c_atr c))
     (indicator_columns default_params dip_bars ! 11) =
   (94, 4573066534 / 48828125, 27375542513494 / 285311670611, 7 / 6)"
proof -
  have l: "11 < length dip_bars" by (simp add: dip_bars_def)
  have "bar_close (dip_bars ! 11) = 94" by code_simp
  moreover have "ema (map bar_close dip_bars) (ema9 default_params) ! 11 = 4573066534 / 48828125"
    by code_simp
  moreover have "ema (map bar_close dip_bars) (ema21 default_params) ! 11 = 27375542513494 / 285311670611"
    by code_simp
  moreover have "atr dip_bars (atr_len default_params) ! 11 = 7 / 6"
    by code_simp
  ultimately show ?thesis using indicator_cells [OF l, of default_params] by simp
qed

section \<open>The claims\<close>

text \<open>
  Claim C1. While a position is open, each row is tested against the exit rules in the
  order stop, target (recorded as \<open>tp\<close>), technical exit, session close. The loop body
  books exactly the first rule that matches and ends there: the position is gone, one
  trade is added, and the entry block is not reached, whatever the row's signal. When no
  rule matches, the position and the ledger are unchanged.
\<close>

theorem exit_priority:
  "pos st = Some p \<Longrightarrow>
   loop_body ps prev r st =
     (case spec_first_exit p prev r of
        Some (rsn, ex) \<Rightarrow> book p ex (spec_pnl p ex) rsn r (daily_reset r st)
      | None \<Rightarrow> daily_reset r st) \<and>
   (spec_first_exit p prev r \<noteq> None \<longrightarrow>
      pos (loop_body ps prev r st) = None \<and>
      length (trades (loop_body ps prev r st)) = Suc (length (trades st))) \<and>
   (spec_first_exit p prev r = None \<longrightarrow>
      pos (loop_body ps prev r st) = Some p \<and>
      trades (loop_body ps prev r st) = trades st)"
  by (auto simp: loop_body_first_exit book_def trades_daily_reset pos_daily_reset)

theorem exit_priority_witness:
  "pos scenario_state = Some scenario_position \<and>
   signal busy_row = 1 \<and>
   spec_stop_hit scenario_position busy_row \<and>
   spec_target_hit scenario_position busy_row \<and>
   spec_technical scenario_position busy_row \<and>
   spec_session_close (scenario_rows ! 1) busy_row \<and>
   spec_first_exit scenario_position (scenario_rows ! 1) busy_row = Some (''stop'', 99) \<and>
   map reason (trades (loop_body scenario_params (scenario_rows ! 1) busy_row scenario_state))
     = [''stop''] \<and>
   pos (loop_body scenario_params (scenario_rows ! 1) busy_row scenario_state) = None"
proof -
  have p: "pos scenario_state = Some scenario_position"
    by (simp add: scenario_state_def)
  have f: "spec_first_exit scenario_position (scenario_rows ! 1) busy_row = Some (''stop'', 99)"
    by (simp add: spec_first_exit_def spec_stop_hit_def scenario_position_def busy_row_def)
  show ?thesis
    using exit_priority [OF p, of scenario_params "scenario_rows ! 1" busy_row] p f
    by (simp add: book_def trades_daily_reset spec_stop_hit_def spec_target_hit_def
          spec_technical_def spec_session_close_def scenario_position_def busy_row_def
          scenario_rows_def scenario_state_def)
qed

text \<open>
  Claim C2. When the stop of an open long (row low at or below the stop) or of an open
  short (row high at or above the stop) is hit, the trade is booked at the stored stop
  price with reason \<open>stop\<close>, and its P&L is (exit - entry) * qty * tick value for a long
  and (entry - exit) * qty * tick value for a short. In the three-row scenario (entry
  at an open of 100 with ATR 1 and multiplier 1, tick value 10, then a low of 98) the
  run's only trade exits at 99 with reason \<open>stop\<close> and P&L -10, and the final equity is
  the initial equity less 10.
\<close>

theorem stop_exit_exact:
  "(pos st = Some p \<and>
      (side p = LONG \<and> row_low r \<le> stop p \<or> side p = SHORT \<and> row_high r \<ge> stop p)
    \<longrightarrow> (\<exists>t. trades (loop_body ps prev r st) = trades st @ [t] \<and>
             exit_price t = stop p \<and> reason t = ''stop'' \<and> exit_time t = name r \<and>
             entry_price t = entry_price p \<and> qty t = qty p \<and> side t = side p \<and>
             pnl t = (case side p of
                        LONG \<Rightarrow> (exit_price t - entry_price t) * real_of_int (qty t) * CONTRACT_TICK_VALUE
                      | SHORT \<Rightarrow> (entry_price t - exit_price t) * real_of_int (qty t) * CONTRACT_TICK_VALUE) \<and>
             equity (loop_body ps prev r st) = equity st + pnl t \<and>
             pos (loop_body ps prev r st) = None))
   \<and> (atr_mult ps = 1 \<and> 0 < daily_loss_limit_pct ps * initial_equity ps \<and>
      signal r2 = 1 \<and> row_open r2 = 100 \<and> row_atr r2 = 1 \<and> row_low r3 = 98
    \<longrightarrow> (\<exists>s t. run_rows ps [r1, r2, r3] = Inr s \<and> ledger s = [t] \<and>
             side t = LONG \<and> entry_price t = 100 \<and> stop t = 99 \<and> tp t = 103 \<and>
             entry_time t = name r2 \<and> exit_time t = name r3 \<and>
             exit_price t = 99 \<and> reason t = ''stop'' \<and> pnl t = - 10 \<and>
             CONTRACT_TICK_VALUE = 10 \<and>
             final_equity s = initial_equity ps - 10))"
proof (intro conjI impI)
  assume a: "pos st = Some p \<and>
      (side p = LONG \<and> row_low r \<le> stop p \<or> side p = SHORT \<and> row_high r \<ge> stop p)"
  then have h: "pos (daily_reset r st) = Some p" by (simp add: pos_daily_reset)
  from a h show "\<exists>t. trades (loop_body ps prev r st) = trades st @ [t] \<and>
             exit_price t = stop p \<and> reason t = ''stop'' \<and> exit_time t = name r \<and>
             entry_price t = entry_price p \<and> qty t = qty p \<and> side t = side p \<and>
             pnl t = (case side p of
                        LONG \<Rightarrow> (exit_price t - entry_price t) * real_of_int (qty t) * CONTRACT_TICK_VALUE
                      | SHORT \<Rightarrow> (entry_price t - exit_price t) * real_of_int (qty t) * CONTRACT_TICK_VALUE) \<and>
             equity (loop_body ps prev r st) = equity st + pnl t \<and>
             pos (loop_body ps prev r st) = None"
    by (cases "side p")
       (simp_all add: loop_body_def closes_def Let_def book_def trades_daily_reset
          equity_daily_reset)
next
  assume a: "atr_mult ps = 1 \<and> 0 < daily_loss_limit_pct ps * initial_equity ps \<and>
      signal r2 = 1 \<and> row_open r2 = 100 \<and> row_atr r2 = 1 \<and> row_low r3 = 98"
  then show "\<exists>s t. run_rows ps [r1, r2, r3] = Inr s \<and> ledger s = [t] \<and>
             side t = LONG \<and> entry_price t = 100 \<and> stop t = 99 \<and> tp t = 103 \<and>
             entry_time t = name r2 \<and> exit_time t = name r3 \<and>
             exit_price t = 99 \<and> reason t = ''stop'' \<and> pnl t = - 10 \<and>
             CONTRACT_TICK_VALUE = 10 \<and>
             final_equity s = initial_equity ps - 10"
    by (simp add: run_rows_def Let_def loop_body_def daily_reset_def can_open_of_def
          closes_def entries_def book_def end_of_data_def metrics_def CONTRACT_TICK_VALUE_def)
qed

theorem stop_exit_exact_witness:
  "generate_signals scenario_params scenario_bars = scenario_rows \<and>
   pos scenario_state = Some scenario_position \<and> side scenario_position = LONG \<and>
   row_low (scenario_rows ! 2) \<le> stop scenario_position \<and>
   (\<exists>t. trades (loop_body scenario_params (scenario_rows ! 1) (scenario_rows ! 2) scenario_state) = [t] \<and>
        exit_price t = 99 \<and> row_low (scenario_rows ! 2) = 98 \<and> reason t = ''stop'' \<and> pnl t = - 10) \<and>
   atr_mult scenario_params = 1 \<and>
   0 < daily_loss_limit_pct scenario_params * initial_equity scenario_params \<and>
   signal (scenario_rows ! 1) = 1 \<and> row_open (scenario_rows ! 1) = 100 \<and>
   row_atr (scenario_rows ! 1) = 1 \<and> row_low (scenario_rows ! 2) = 98 \<and>
   (\<exists>s t. run_backtest scenario_params scenario_bars = Inr s \<and> ledger s = [t] \<and>
      exit_price t = 99 \<and> reason t = ''stop'' \<and> pnl t = - 10 \<and>
      final_equity s = 100000 - 10)"
proof -
  have g: "generate_signals scenario_params scenario_bars = scenario_rows"
    by (rule scenario_signals)
  have rows: "scenario_rows = [scenario_rows ! 0, scenario_rows ! 1, scenario_rows ! 2]"
    by (simp add: scenario_rows_def)
  have h1: "pos scenario_state = Some scenario_position \<and>
     (side scenario_position = LONG \<and> row_low (scenario_rows ! 2) \<le> stop scenario_position \<or>
      side scenario_position = SHORT \<and> row_high (scenario_rows ! 2) \<ge> stop scenario_position)"
    by (simp add: scenario_state_def scenario_position_def scenario_rows_def)
  have h2: "atr_mult scenario_params = 1 \<and>
     0 < daily_loss_limit_pct scenario_params * initial_equity scenario_params \<and>
     signal (scenario_rows ! 1) = 1 \<and> row_open (scenario_rows ! 1) = 100 \<and>
     row_atr (scenario_rows ! 1) = 1 \<and> row_low (scenario_rows ! 2) = 98"
    by (simp add: scenario_params_def default_params_def scenario_rows_def)
  have run: "run_backtest scenario_params scenario_bars =
      run_rows scenario_params [scenario_rows ! 0, scenario_rows ! 1, scenario_rows ! 2]"
    using rows by (simp add: run_backtest_def g)
  note inst = stop_exit_exact [of scenario_state scenario_position "scenario_rows ! 2"
      scenario_params "scenario_rows ! 1" "scenario_rows ! 1" "scenario_rows ! 2" "scenario_rows ! 0"]
  from inst h1 have c1: "\<exists>t. trades (loop_body scenario_params (scenario_rows ! 1) (scenario_rows ! 2) scenario_state) = [t] \<and>
        exit_price t = 99 \<and> row_low (scenario_rows ! 2) = 98 \<and> reason t = ''stop'' \<and> pnl t = - 10"
    by (auto simp: scenario_state_def scenario_position_def scenario_rows_def CONTRACT_TICK_VALUE_def)
  from inst h2 run have c2: "\<exists>s t. run_backtest scenario_params scenario_bars = Inr s \<and> ledger s = [t] \<and>
      exit_price t = 99 \<and> reason t = ''stop'' \<and> pnl t = - 10 \<and>
      final_equity s = 100000 - 10"
    by (auto simp: scenario_params_def default_params_def)
  show ?thesis using g h1 h2 c1 c2 by (simp add: scenario_position_def)
qed

text \<open>
  Claim C3. On an empty frame the run does not return a summary: \<open>generate_signals\<close>
  yields an empty frame and \<open>df.index[0]\<close> on line 27 raises IndexError, before any
  trade, equity or ratio is reported.
\<close>

theorem empty_frame_fault:
  "generate_signals ps [] = [] \<and> run_backtest ps [] = Inl IndexError"
  by (simp add: run_backtest_def run_rows_def generate_signals_Nil)

theorem empty_frame_fault_witness:
  "run_backtest default_params [] = Inl IndexError"
  using empty_frame_fault [of default_params] by simp

text \<open>
  Claim C4, as stated, fails: a close at the target price is recorded with the reason
  \<open>tp\<close>, which is not in the set the claim names.
\<close>

theorem target_reason_counterexample:
  "\<exists>s t. run_backtest scenario_params target_bars = Inr s \<and> ledger s = [t] \<and>
     exit_price t = tp t \<and> reason t = ''tp'' \<and>
     reason t \<notin> {''stop'', ''target'', ''technical_exit'', ''session_close'', ''end_of_data''}"
  by (simp add: target_run)

text \<open>
  Claim C4, amended. Every trade in the ledger of a run carries a reason drawn from
  stop, tp, technical_exit, session_close, end_of_data; a trade closed because the row
  reached the target price (and not the stop) is recorded with reason \<open>tp\<close> at the
  target price.
\<close>

theorem ledger_reasons:
  "(run_backtest ps df = Inr s \<longrightarrow>
      (\<forall>t\<in>set (ledger s).
         reason t \<in> {''stop'', ''tp'', ''technical_exit'', ''session_close'', ''end_of_data''})) \<and>
   (pos st = Some p \<and> \<not> spec_stop_hit p r \<and> spec_target_hit p r \<longrightarrow>
      (\<exists>t. trades (loop_body ps prev r st) = trades st @ [t] \<and>
           reason t = ''tp'' \<and> exit_price t = tp p))"
proof (intro conjI impI ballI)
  fix t
  assume "run_backtest ps df = Inr s" and "t \<in> set (ledger s)"
  then show "reason t \<in> {''stop'', ''tp'', ''technical_exit'', ''session_close'', ''end_of_data''}"
    using run_rows_reasons [of ps "generate_signals ps df" s t]
    by (simp add: run_backtest_def)
next
  assume a: "pos st = Some p \<and> \<not> spec_stop_hit p r \<and> spec_target_hit p r"
  then have "spec_first_exit p prev r = Some (''tp'', tp p)"
    by (simp add: spec_first_exit_def)
  then show "\<exists>t. trades (loop_body ps prev r st) = trades st @ [t] \<and>
           reason t = ''tp'' \<and> exit_price t = tp p"
    using a loop_body_first_exit [of st p ps prev r]
    by (simp add: book_def trades_daily_reset)
qed

theorem ledger_reasons_witness:
  "(\<exists>s t. run_backtest scenario_params target_bars = Inr s \<and> ledger s = [t] \<and>
      reason t = ''tp'' \<and>
      reason t \<in> {''stop'', ''tp'', ''technical_exit'', ''session_close'', ''end_of_data''}) \<and>
   pos scenario_state = Some scenario_position \<and>
   \<not> spec_stop_hit scenario_position (generate_signals scenario_params target_bars ! 2) \<and>
   spec_target_hit scenario_position (generate_signals scenario_params target_bars ! 2) \<and>
   (\<exists>t. trades (loop_body scenario_params (scenario_rows ! 1)
               (generate_signals scenario_params target_bars ! 2) scenario_state) = [t] \<and>
        reason t = ''tp'' \<and> exit_price t = 103)"
proof -
  define r where "r = generate_signals scenario_params target_bars ! 2"
  have lo: "row_low r = 999 / 10" unfolding r_def by code_simp
  have hi: "row_high r = 1035 / 10" unfolding r_def by code_simp
  have h: "pos scenario_state = Some scenario_position \<and>
           \<not> spec_stop_hit scenario_position r \<and> spec_target_hit scenario_position r"
    by (simp add: scenario_state_def scenario_position_def spec_stop_hit_def
          spec_target_hit_def lo hi)
  note inst = ledger_reasons [of scenario_params target_bars _ scenario_state
      scenario_position r "scenario_rows ! 1"]
  have a: "\<exists>s t. run_backtest scenario_params target_bars = Inr s \<and> ledger s = [t] \<and>
      reason t = ''tp'' \<and>
      reason t \<in> {''stop'', ''tp'', ''technical_exit'', ''session_close'', ''end_of_data''}"
    using inst by (simp add: target_run)
  have b: "\<exists>t. trades (loop_body scenario_params (scenario_rows ! 1) r scenario_state) = [t] \<and>
        reason t = ''tp'' \<and> exit_price t = 103"
    using inst h by (auto simp: scenario_state_def scenario_position_def)
  show ?thesis using a b h by (simp add: r_def)
qed

text \<open>
  Claim C5. On the three-bar frame the program attaches to the bars of the second bin
  the last value of the EMA run over that bin's own two closes (about 100.891), while
  the EMA over the series of bin-last closes, the construction used for the
  higher-timeframe MACD histogram, gives about 99.505.
\<close>

theorem htf_ema200_divergence:
  "map c_ema200_htf (indicator_columns default_params scenario_bars) =
     [Fin (199 / 2), Fin (67597 / 670), Fin (67597 / 670)] \<and>
   map (reindex_ffill (spec_ema200_htf_column default_params
          (zip (map bar_time scenario_bars) (map bar_close scenario_bars))))
       (map bar_time scenario_bars) =
     [Fin (199 / 2), Fin (40001 / 402), Fin (40001 / 402)]"
  by code_simp

text \<open>
  Claim C6. The program's pullback filter holds exactly when the close lies between
  ema21 and ema9 in that one order, or within 1.5 ATR of ema21. On the last bar of the
  twelve-bar frame the close 94 lies between ema9 (about 93.66) and ema21 (about 95.95)
  and is further than 1.5 ATR from ema21: the specification's filter holds there and the
  program's does not.
\<close>

theorem pullback_band_divergence:
  "pullback_to_ema c =
     ((c_ema21 c \<le> c_close c \<and> c_close c \<le> c_ema9 c) \<or>
      \<bar>c_close c - c_ema21 c\<bar> \<le> 15 / 10 * c_atr c) \<and>
   spec_pullback (indicator_columns default_params dip_bars ! 11) \<and>
   \<not> pullback_to_ema (indicator_columns default_params dip_bars ! 11) \<and>
   c_ema9 (indicator_columns default_params dip_bars ! 11) < 94 \<and>
   c_close (indicator_columns default_params dip_bars ! 11) = 94 \<and>
   94 < c_ema21 (indicator_columns default_params dip_bars ! 11)"
proof -
  define d where "d = indicator_columns default_params dip_bars ! 11"
  have g: "pullback_to_ema c =
     ((c_ema21 c \<le> c_close c \<and> c_close c \<le> c_ema9 c) \<or>
      \<bar>c_close c - c_ema21 c\<bar> \<le> 15 / 10 * c_atr c)"
    by (auto simp: pullback_to_ema_def)
  have v: "c_close d = 94" "c_ema9 d = 4573066534 / 48828125"
    "c_ema21 d = 27375542513494 / 285311670611" "c_atr d = 7 / 6"
    using dip_cells by (simp_all add: d_def)
  have a: "spec_pullback d" by (simp add: spec_pullback_def v)
  have b: "\<not> pullback_to_ema d" by (simp add: pullback_to_ema_def v)
  have c1: "c_ema9 d < 94" "94 < c_ema21 d" by (simp_all add: v)
  show ?thesis using g a b c1 v(1) unfolding d_def by blast
qed

text \<open>
  Claim C7. With an empty ledger the summary is not computed: \<open>trades_df['pnl']\<close> on
  line 165 raises KeyError, so neither ratio is reported as undefined. Any frame that
  closes no trade ends this way, here two flat bars.
\<close>

theorem empty_ledger_fault:
  "metrics [] eq = Inl KeyError \<and> run_backtest default_params quiet_bars = Inl KeyError"
  by (simp add: metrics_def quiet_run)

text \<open>
  Claim C8. VWAP is cumulative over the whole frame: at every bar whose cumulative
  volume is not zero it is the cumulative sum of typical price times volume divided by
  the cumulative volume, both from the first bar; bar timestamps play no part, so nothing
  resets at a session or a day. An undefined quotient takes the value of the bar before:
  every bar at or after a defined quotient has a defined VWAP, and the bars before the
  first defined quotient stay undefined.
\<close>

theorem vwap_cumulative:
  "i < length df \<Longrightarrow>
   (spec_cum_vol df i \<noteq> 0 \<longrightarrow> vwap df ! i = Fin (spec_cum_vp df i / spec_cum_vol df i)) \<and>
   vwap df ! i =
     (if spec_ratio df i \<noteq> NaN then spec_ratio df i
      else if i = 0 then NaN else vwap df ! (i - 1)) \<and>
   (\<forall>j\<le>i. spec_ratio df j \<noteq> NaN \<longrightarrow> vwap df ! i \<noteq> NaN) \<and>
   ((\<forall>j\<le>i. spec_ratio df j = NaN) \<longrightarrow> vwap df ! i = NaN) \<and>
   vwap (map (\<lambda>b. b\<lparr>bar_time := f b\<rparr>) df) = vwap df"
proof (intro conjI allI impI)
  assume i: "i < length df"
  then have il: "i < length (ratios df)" by (simp add: length_ratios)
  show rec: "vwap df ! i =
     (if spec_ratio df i \<noteq> NaN then spec_ratio df i
      else if i = 0 then NaN else vwap df ! (i - 1))"
    using nth_ffill_from [OF il, of NaN] i by (simp add: vwap_ratios nth_ratios)
  {
    assume "spec_cum_vol df i \<noteq> 0"
    then have "spec_ratio df i = Fin (spec_cum_vp df i / spec_cum_vol df i)"
      by (simp add: spec_ratio_def fdiv_def)
    then show "vwap df ! i = Fin (spec_cum_vp df i / spec_cum_vol df i)"
      using rec by simp
  }
  {
    fix j assume "j \<le> i" and "spec_ratio df j \<noteq> NaN"
    then show "vwap df ! i \<noteq> NaN"
      using ffill_from_defined [OF il, of j NaN] i by (simp add: vwap_ratios nth_ratios)
  }
  {
    assume "\<forall>j\<le>i. spec_ratio df j = NaN"
    then have "\<forall>j\<le>i. ratios df ! j = NaN" using i by (simp add: nth_ratios)
    then show "vwap df ! i = NaN"
      using ffill_from_leading [OF il, of NaN] by (simp add: vwap_ratios)
  }
  show "vwap (map (\<lambda>b. b\<lparr>bar_time := f b\<rparr>) df) = vwap df"
    by (simp add: vwap_def Let_def o_def typical_price_def)
qed

theorem vwap_cumulative_witness:
  "2 < length gap_bars \<and>
   date (bar_time (gap_bars ! 1)) \<noteq> date (bar_time (gap_bars ! 2)) \<and>
   spec_cum_vol gap_bars 2 \<noteq> 0 \<and>
   spec_ratio gap_bars 0 = NaN \<and> spec_ratio gap_bars 1 \<noteq> NaN \<and>
   vwap gap_bars ! 2 = Fin (spec_cum_vp gap_bars 2 / spec_cum_vol gap_bars 2) \<and>
   vwap gap_bars = [NaN, Fin 11, Fin 12]"
proof -
  have l: "2 < length gap_bars" by (simp add: gap_bars_def)
  have v: "spec_cum_vol gap_bars 2 \<noteq> 0"
    by (simp add: spec_cum_vol_def gap_bars_def)
  have r: "spec_ratio gap_bars 0 = NaN \<and> spec_ratio gap_bars 1 \<noteq> NaN"
    by (simp add: spec_ratio_def spec_cum_vp_def spec_cum_vol_def fdiv_def gap_bars_def
          typical_price_def)
  have d: "date (bar_time (gap_bars ! 1)) \<noteq> date (bar_time (gap_bars ! 2))"
    by (simp add: gap_bars_def date_def)
  have e: "vwap gap_bars = [NaN, Fin 11, Fin 12]"
    by (simp add: vwap_def gap_bars_def cumsum_def ffill_def Let_def fdiv_def
          typical_price_def)
  have "vwap gap_bars ! 2 = Fin (spec_cum_vp gap_bars 2 / spec_cum_vol gap_bars 2)"
    using vwap_cumulative [OF l, of "\<lambda>b. 0"] v by blast
  then show ?thesis
    using l v r d e by blast
qed

text \<open>
  Claim C9. With strictly increasing bar timestamps, every trade closed by the stop,
  target (tp), technical-exit or session-close rule has an exit timestamp strictly after
  its entry timestamp; a trade whose exit and entry timestamps coincide is the
  end-of-data close of a position entered on the final bar.
\<close>

theorem exit_after_entry:
  "sorted_wrt (<) (map bar_time df) \<Longrightarrow> run_backtest ps df = Inr s \<Longrightarrow>
   \<forall>t\<in>set (ledger s).
     (reason t \<in> {''stop'', ''tp'', ''technical_exit'', ''session_close''}
        \<longrightarrow> entry_time t < exit_time t) \<and>
     entry_time t \<le> exit_time t \<and>
     (entry_time t = exit_time t
        \<longrightarrow> reason t = ''end_of_data'' \<and> entry_time t = bar_time (last df))"
proof
  fix t
  assume srt: "sorted_wrt (<) (map bar_time df)" and run: "run_backtest ps df = Inr s"
    and t: "t \<in> set (ledger s)"
  define rows where "rows = generate_signals ps df"
  have n: "map name rows = map bar_time df"
    by (simp add: rows_def name_generate_signals)
  have ne: "rows \<noteq> []"
    using run by (auto simp: run_backtest_def run_rows_def rows_def)
  then have "df \<noteq> []" using n by auto
  then have lst: "name (last rows) = bar_time (last df)"
    using n ne by (metis last_map)
  have srt': "sorted_wrt (<) (map name rows)" using srt n by simp
  have run': "run_rows ps rows = Inr s" using run by (simp add: run_backtest_def rows_def)
  have "(reason t \<noteq> ''end_of_data'' \<longrightarrow> entry_time t < exit_time t) \<and>
         (reason t = ''end_of_data'' \<longrightarrow>
            entry_time t \<le> exit_time t \<and> exit_time t = name (last rows))"
    by (rule run_rows_timing [OF srt' run' t])
  then show "(reason t \<in> {''stop'', ''tp'', ''technical_exit'', ''session_close''}
        \<longrightarrow> entry_time t < exit_time t) \<and>
     entry_time t \<le> exit_time t \<and>
     (entry_time t = exit_time t
        \<longrightarrow> reason t = ''end_of_data'' \<and> entry_time t = bar_time (last df))"
    using lst by (cases "reason t = ''end_of_data''") auto
qed

theorem exit_after_entry_witness:
  "sorted_wrt (<) (map bar_time late_bars) \<and>
   (\<exists>s t. run_backtest default_params late_bars = Inr s \<and> ledger s = [t] \<and>
      reason t = ''end_of_data'' \<and> entry_time t = exit_time t \<and>
      entry_time t = bar_time (last late_bars)) \<and>
   sorted_wrt (<) (map bar_time scenario_bars) \<and>
   (\<exists>s t. run_backtest scenario_params scenario_bars = Inr s \<and> ledger s = [t] \<and>
      reason t = ''stop'' \<and> entry_time t < exit_time t)"
proof -
  have s1: "sorted_wrt (<) (map bar_time late_bars)" by (simp add: late_bars_def)
  have s2: "sorted_wrt (<) (map bar_time scenario_bars)" by (simp add: scenario_bars_def)
  have r1: "run_backtest default_params late_bars =
     Inr \<lparr>ledger =
            [\<lparr>side = LONG, entry_price = 201 / 2, stop = 4987 / 50, tp = 5139 / 50,
              qty = 1, entry_time = 50460, exit_price = 101, exit_time = 50460,
              pnl = 5, reason = ''end_of_data''\<rparr>],
          final_equity = 100005, total_pnl = 5, win_rate = Fin 1,
          profit_factor = NaN\<rparr>"
    by code_simp
  have l: "bar_time (last late_bars) = 50460" by (simp add: late_bars_def)
  have a: "\<exists>s t. run_backtest default_params late_bars = Inr s \<and> ledger s = [t] \<and>
      reason t = ''end_of_data'' \<and> entry_time t = exit_time t \<and>
      entry_time t = bar_time (last late_bars)"
    using exit_after_entry [OF s1 r1] by (simp add: r1 l)
  have b: "\<exists>s t. run_backtest scenario_params scenario_bars = Inr s \<and> ledger s = [t] \<and>
      reason t = ''stop'' \<and> entry_time t < exit_time t"
    using exit_after_entry [OF s2 scenario_run] by (simp add: scenario_run)
  show ?thesis using s1 s2 a b by blast
qed

text \<open>
  Claim C10. On a row whose attached higher-timeframe ema200 or MACD histogram is NaN,
  \<open>htf_bull\<close> and \<open>htf_bear\<close> are both false, neither setup holds, the signal is 0, and
  the loop body opens no position on it: afterwards the position is either none or the
  one held before.
\<close>

theorem htf_nan_no_entry:
  "c_ema200_htf c = NaN \<or> c_macd_hist_htf c = NaN \<Longrightarrow>
   \<not> htf_bull c \<and> \<not> htf_bear c \<and> \<not> long_setup ps c \<and> \<not> short_setup ps c \<and>
   signal_of ps c = 0 \<and> signal (signal_row ps c) = 0 \<and>
   (pos (loop_body ps prev (signal_row ps c) st) = None \<or>
    pos (loop_body ps prev (signal_row ps c) st) = pos st)"
proof -
  assume a: "c_ema200_htf c = NaN \<or> c_macd_hist_htf c = NaN"
  then have h: "\<not> htf_bull c \<and> \<not> htf_bear c" by (rule htf_nan_filters)
  then have s: "signal_of ps c = 0"
    by (simp add: signal_of_def long_setup_def short_setup_def)
  then have r: "signal (signal_row ps c) = 0" by (simp add: signal_row_def)
  have "pos (loop_body ps prev (signal_row ps c) st) = None \<or>
        pos (loop_body ps prev (signal_row ps c) st) = pos st"
  proof (cases "pos st")
    case None
    then have "pos (daily_reset (signal_row ps c) st) = None" by (simp add: pos_daily_reset)
    then show ?thesis
      using r by (simp add: loop_body_def closes_def Let_def entries_no_signal)
  next
    case (Some p)
    then show ?thesis
      using loop_body_cases [of st ps prev "signal_row ps c"] by auto
  qed
  then show ?thesis using h s r by (simp add: long_setup_def short_setup_def)
qed

theorem htf_nan_no_entry_witness:
  "c_ema200_htf nan_cols = NaN \<and>
   c_in_ny nan_cols \<and> ema_long_stack nan_cols \<and> vwap_long nan_cols \<and>
   vol_ok default_params nan_cols \<and> macd_rising nan_cols \<and> pullback_to_ema nan_cols \<and>
   long_setup default_params (nan_cols\<lparr>c_ema200_htf := Fin 100\<rparr>) \<and>
   signal_of default_params nan_cols = 0 \<and>
   pos (loop_body default_params (scenario_rows ! 0)
          (signal_row default_params nan_cols) idle_state) = None"
proof -
  have n: "c_ema200_htf nan_cols = NaN" by (simp add: nan_cols_def)
  have f: "c_in_ny nan_cols \<and> ema_long_stack nan_cols \<and> vwap_long nan_cols \<and>
     vol_ok default_params nan_cols \<and> macd_rising nan_cols \<and> pullback_to_ema nan_cols"
    by (simp add: nan_cols_def ema_long_stack_def vwap_long_def vol_ok_def macd_rising_def
          pullback_to_ema_def default_params_def)
  have l: "long_setup default_params (nan_cols\<lparr>c_ema200_htf := Fin 100\<rparr>)"
    by (simp add: nan_cols_def long_setup_def htf_bull_def ema_long_stack_def vwap_long_def
          vol_ok_def macd_rising_def pullback_to_ema_def default_params_def)
  have p: "pos idle_state = None" by (simp add: idle_state_def)
  show ?thesis
    using htf_nan_no_entry [of nan_cols default_params "scenario_rows ! 0" idle_state]
      n f l p by simp
qed

end
